theory Spec2Isabelle
  imports Main
begin

section \<open>Data model (src/types/index.ts)\<close>

text \<open>
  JavaScript values, as far as the validator looks at them. A \<open>number\<close> is modelled as
  an integer, which is what section 3 of the specification declares every numeric field
  to be; \<open>NaN\<close>, infinities and fractions are outside the model.
  \<open>AttributesJSON\<close> is whatever \<open>JSON.parse\<close> gave the normaliser, so it is kept as
  an arbitrary value.
\<close>

datatype jsvalue =
    JUndefined
  | JNull
  | JBoolean bool
  | JNumber int
  | JString string
  | JArray "jsvalue list"
  | JObject "(string \<times> jsvalue) list"

record Client =
  ClientID :: string
  ClientName :: string
  PriorityLevel :: int
  RequestedTaskIDs :: "string list"
  GroupTag :: string
  AttributesJSON :: jsvalue

record Worker =
  WorkerID :: string
  WorkerName :: string
  Skills :: "string list"
  AvailableSlots :: "int list"
  MaxLoadPerPhase :: int
  WorkerGroup :: string
  QualificationLevel :: string

record Task =
  TaskID :: string
  TaskName :: string
  Category :: string
  Duration :: int
  RequiredSkills :: "string list"
  PreferredPhases :: "int list"
  MaxConcurrent :: int

datatype finding_type = error | warning

datatype entity_type = client_entity | worker_entity | task_entity

datatype severity_level = low | medium | high

text \<open>
  \<open>ValidationError\<close>; the fields \<open>id\<close> and \<open>type\<close> carry a prime, \<open>field\<close> is
  optional as in the interface.
\<close>

record ValidationError =
  id' :: string
  type' :: finding_type
  message :: string
  field :: "string option"
  entityType :: entity_type
  entityId :: string
  severity :: severity_level

record ValidationResult =
  isValid :: bool
  errors :: "ValidationError list"
  warnings :: "ValidationError list"

record DataSet =
  clients :: "Client list"
  workers :: "Worker list"
  tasks :: "Task list"

section \<open>JavaScript primitives used by the validator\<close>

text \<open>Decimal rendering of a number inside a template literal.\<close>

definition digit_char :: "nat \<Rightarrow> char" where
  "digit_char n = char_of (48 + n)"

fun string_of_nat :: "nat \<Rightarrow> string" where
  "string_of_nat n =
     (if n < 10 then [digit_char n]
      else string_of_nat (n div 10) @ [digit_char (n mod 10)])"

declare string_of_nat.simps [simp del]

definition string_of_int :: "int \<Rightarrow> string" where
  "string_of_int i =
     (if i < 0 then CHR ''-'' # string_of_nat (nat (- i)) else string_of_nat (nat i))"

text \<open>\<open>!v\<close> is \<open>\<not> truthy v\<close>: the falsy values are undefined, null, false, 0 and the
  empty string; every array and object is truthy.\<close>

fun truthy :: "jsvalue \<Rightarrow> bool" where
  "truthy JUndefined = False"
| "truthy JNull = False"
| "truthy (JBoolean b) = b"
| "truthy (JNumber n) = (n \<noteq> 0)"
| "truthy (JString s) = (s \<noteq> [])"
| "truthy (JArray xs) = True"
| "truthy (JObject kvs) = True"

fun isArray :: "jsvalue \<Rightarrow> bool" where
  "isArray (JArray xs) = True"
| "isArray v = False"

fun array_length :: "jsvalue \<Rightarrow> nat" where
  "array_length (JArray xs) = length xs"
| "array_length v = 0"

fun typeof :: "jsvalue \<Rightarrow> string" where
  "typeof JUndefined = ''undefined''"
| "typeof JNull = ''object''"
| "typeof (JBoolean b) = ''boolean''"
| "typeof (JNumber n) = ''number''"
| "typeof (JString s) = ''string''"
| "typeof (JArray xs) = ''object''"
| "typeof (JObject kvs) = ''object''"

text \<open>\<open>isNaN\<close> on a number of the model: an integer is never \<open>NaN\<close>.\<close>

definition isNaN :: "int \<Rightarrow> bool" where
  "isNaN n = False"

text \<open>\<open>s || alt\<close> on strings: the empty string is falsy.\<close>

definition or_string :: "string \<Rightarrow> string \<Rightarrow> string" where
  "or_string s alt = (if s \<noteq> [] then s else alt)"

text \<open>\<open>m.get(k) || 0\<close> on a number-valued Map: a missing key and a stored 0 both give 0.\<close>

definition or_zero :: "int option \<Rightarrow> int" where
  "or_zero v = (case v of None \<Rightarrow> 0 | Some x \<Rightarrow> if x \<noteq> 0 then x else 0)"

text \<open>
  \<open>xs.forEach((x, index) => ...)\<close>: the callback is run on every element in order, with
  its index, and works on the state of the surrounding function.
\<close>

primrec forEach_from :: "nat \<Rightarrow> 'a list \<Rightarrow> ('a \<Rightarrow> nat \<Rightarrow> 's \<Rightarrow> 's) \<Rightarrow> 's \<Rightarrow> 's" where
  "forEach_from i [] f s = s"
| "forEach_from i (x # xs) f s = forEach_from (Suc i) xs f (f x i s)"

definition forEach :: "'a list \<Rightarrow> ('a \<Rightarrow> nat \<Rightarrow> 's \<Rightarrow> 's) \<Rightarrow> 's \<Rightarrow> 's" where
  "forEach xs f s = forEach_from 0 xs f s"

text \<open>
  The state of one rule: the dataset object the caller passed (a JavaScript object is
  handed over by reference, so a rule could write to it) and the rule's local
  \<open>errors\<close> array.
\<close>

record rstate =
  st_data :: DataSet
  st_errors :: "ValidationError list"

definition push :: "ValidationError \<Rightarrow> rstate \<Rightarrow> rstate" where
  "push e s = s\<lparr>st_errors := st_errors s @ [e]\<rparr>"

definition enter :: "DataSet \<Rightarrow> rstate" where
  "enter d = \<lparr>st_data = d, st_errors = []\<rparr>"

text \<open>\<open>return errors\<close>: the returned array, and the dataset as the call leaves it.\<close>

definition leave :: "rstate \<Rightarrow> ValidationError list \<times> DataSet" where
  "leave s = (st_errors s, st_data s)"

section \<open>The rules (src/lib/validations/validator.ts)\<close>

subsection \<open>1. Missing required columns\<close>

definition requiredClientFields :: "string list" where
  "requiredClientFields = [''ClientID'', ''ClientName'', ''PriorityLevel'']"

definition requiredWorkerFields :: "string list" where
  "requiredWorkerFields = [''WorkerID'', ''WorkerName'', ''Skills'', ''AvailableSlots'']"

definition requiredTaskFields :: "string list" where
  "requiredTaskFields = [''TaskID'', ''TaskName'', ''Duration'', ''RequiredSkills'']"

text \<open>\<open>client[field]\<close>, \<open>worker[field]\<close>, \<open>task[field]\<close>: a property read by name.\<close>

definition client_get :: "Client \<Rightarrow> string \<Rightarrow> jsvalue" where
  "client_get c f =
     (if f = ''ClientID'' then JString (ClientID c)
      else if f = ''ClientName'' then JString (ClientName c)
      else if f = ''PriorityLevel'' then JNumber (PriorityLevel c)
      else if f = ''RequestedTaskIDs'' then JArray (map JString (RequestedTaskIDs c))
      else if f = ''GroupTag'' then JString (GroupTag c)
      else if f = ''AttributesJSON'' then AttributesJSON c
      else JUndefined)"

definition worker_get :: "Worker \<Rightarrow> string \<Rightarrow> jsvalue" where
  "worker_get w f =
     (if f = ''WorkerID'' then JString (WorkerID w)
      else if f = ''WorkerName'' then JString (WorkerName w)
      else if f = ''Skills'' then JArray (map JString (Skills w))
      else if f = ''AvailableSlots'' then JArray (map JNumber (AvailableSlots w))
      else if f = ''MaxLoadPerPhase'' then JNumber (MaxLoadPerPhase w)
      else if f = ''WorkerGroup'' then JString (WorkerGroup w)
      else if f = ''QualificationLevel'' then JString (QualificationLevel w)
      else JUndefined)"

definition task_get :: "Task \<Rightarrow> string \<Rightarrow> jsvalue" where
  "task_get t f =
     (if f = ''TaskID'' then JString (TaskID t)
      else if f = ''TaskName'' then JString (TaskName t)
      else if f = ''Category'' then JString (Category t)
      else if f = ''Duration'' then JNumber (Duration t)
      else if f = ''RequiredSkills'' then JArray (map JString (RequiredSkills t))
      else if f = ''PreferredPhases'' then JArray (map JNumber (PreferredPhases t))
      else if f = ''MaxConcurrent'' then JNumber (MaxConcurrent t)
      else JUndefined)"

text \<open>The test \<open>!v || (Array.isArray(v) && v.length === 0)\<close>.\<close>

definition missing_value :: "jsvalue \<Rightarrow> bool" where
  "missing_value v = (\<not> truthy v \<or> (isArray v \<and> array_length v = 0))"

definition missing_client_finding :: "Client \<Rightarrow> nat \<Rightarrow> string \<Rightarrow> ValidationError" where
  "missing_client_finding c index fld =
     \<lparr>id' = ''missing-client-'' @ fld @ ''-'' @ string_of_nat index,
      type' = error,
      message = ''Missing required field: '' @ fld,
      field = Some fld,
      entityType = client_entity,
      entityId = or_string (ClientID c) (''Row '' @ string_of_nat (index + 1)),
      severity = high\<rparr>"

definition missing_client_field :: "Client \<Rightarrow> nat \<Rightarrow> string \<Rightarrow> nat \<Rightarrow> rstate \<Rightarrow> rstate" where
  "missing_client_field c index fld k s =
     (if missing_value (client_get c fld) then
        push (missing_client_finding c index fld) s
      else s)"

definition missing_worker_finding :: "Worker \<Rightarrow> nat \<Rightarrow> string \<Rightarrow> ValidationError" where
  "missing_worker_finding w index fld =
     \<lparr>id' = ''missing-worker-'' @ fld @ ''-'' @ string_of_nat index,
      type' = error,
      message = ''Missing required field: '' @ fld,
      field = Some fld,
      entityType = worker_entity,
      entityId = or_string (WorkerID w) (''Row '' @ string_of_nat (index + 1)),
      severity = high\<rparr>"

definition missing_worker_field :: "Worker \<Rightarrow> nat \<Rightarrow> string \<Rightarrow> nat \<Rightarrow> rstate \<Rightarrow> rstate" where
  "missing_worker_field w index fld k s =
     (if missing_value (worker_get w fld) then
        push (missing_worker_finding w index fld) s
      else s)"

definition missing_task_finding :: "Task \<Rightarrow> nat \<Rightarrow> string \<Rightarrow> ValidationError" where
  "missing_task_finding t index fld =
     \<lparr>id' = ''missing-task-'' @ fld @ ''-'' @ string_of_nat index,
      type' = error,
      message = ''Missing required field: '' @ fld,
      field = Some fld,
      entityType = task_entity,
      entityId = or_string (TaskID t) (''Row '' @ string_of_nat (index + 1)),
      severity = high\<rparr>"

definition missing_task_field :: "Task \<Rightarrow> nat \<Rightarrow> string \<Rightarrow> nat \<Rightarrow> rstate \<Rightarrow> rstate" where
  "missing_task_field t index fld k s =
     (if missing_value (task_get t fld) then
        push (missing_task_finding t index fld) s
      else s)"

definition validateMissingRequiredColumns :: "DataSet \<Rightarrow> ValidationError list \<times> DataSet" where
  "validateMissingRequiredColumns data =
     (let s = enter data;
          s = forEach (clients (st_data s))
                (\<lambda>c index. forEach requiredClientFields (missing_client_field c index)) s;
          s = forEach (workers (st_data s))
                (\<lambda>w index. forEach requiredWorkerFields (missing_worker_field w index)) s;
          s = forEach (tasks (st_data s))
                (\<lambda>t index. forEach requiredTaskFields (missing_task_field t index)) s
      in leave s)"

subsection \<open>2. Duplicate IDs\<close>

text \<open>
  Each of the three passes carries its own \<open>Map<string, number>\<close> from an ID to the index
  of its first row; \<open>has\<close> is \<open>m k \<noteq> None\<close>, \<open>set\<close> is a map update. The guard
  \<open>if (client.ClientID)\<close> skips the empty string.
\<close>

definition duplicate_client_finding :: "Client \<Rightarrow> ValidationError" where
  "duplicate_client_finding c =
     \<lparr>id' = ''duplicate-client-'' @ ClientID c,
      type' = error,
      message = ''Duplicate ClientID: '' @ ClientID c,
      field = Some ''ClientID'',
      entityType = client_entity,
      entityId = ClientID c,
      severity = high\<rparr>"

definition duplicate_client :: "Client \<Rightarrow> nat \<Rightarrow> rstate \<times> (string \<rightharpoonup> nat) \<Rightarrow> rstate \<times> (string \<rightharpoonup> nat)" where
  "duplicate_client c index = (\<lambda>(s, clientIDs).
     if ClientID c \<noteq> [] then
       (if clientIDs (ClientID c) \<noteq> None then
          (push (duplicate_client_finding c) s, clientIDs)
        else (s, clientIDs(ClientID c \<mapsto> index)))
     else (s, clientIDs))"

definition duplicate_worker_finding :: "Worker \<Rightarrow> ValidationError" where
  "duplicate_worker_finding w =
     \<lparr>id' = ''duplicate-worker-'' @ WorkerID w,
      type' = error,
      message = ''Duplicate WorkerID: '' @ WorkerID w,
      field = Some ''WorkerID'',
      entityType = worker_entity,
      entityId = WorkerID w,
      severity = high\<rparr>"

definition duplicate_worker :: "Worker \<Rightarrow> nat \<Rightarrow> rstate \<times> (string \<rightharpoonup> nat) \<Rightarrow> rstate \<times> (string \<rightharpoonup> nat)" where
  "duplicate_worker w index = (\<lambda>(s, workerIDs).
     if WorkerID w \<noteq> [] then
       (if workerIDs (WorkerID w) \<noteq> None then
          (push (duplicate_worker_finding w) s, workerIDs)
        else (s, workerIDs(WorkerID w \<mapsto> index)))
     else (s, workerIDs))"

definition duplicate_task_finding :: "Task \<Rightarrow> ValidationError" where
  "duplicate_task_finding t =
     \<lparr>id' = ''duplicate-task-'' @ TaskID t,
      type' = error,
      message = ''Duplicate TaskID: '' @ TaskID t,
      field = Some ''TaskID'',
      entityType = task_entity,
      entityId = TaskID t,
      severity = high\<rparr>"

definition duplicate_task :: "Task \<Rightarrow> nat \<Rightarrow> rstate \<times> (string \<rightharpoonup> nat) \<Rightarrow> rstate \<times> (string \<rightharpoonup> nat)" where
  "duplicate_task t index = (\<lambda>(s, taskIDs).
     if TaskID t \<noteq> [] then
       (if taskIDs (TaskID t) \<noteq> None then
          (push (duplicate_task_finding t) s, taskIDs)
        else (s, taskIDs(TaskID t \<mapsto> index)))
     else (s, taskIDs))"

definition validateDuplicateIDs :: "DataSet \<Rightarrow> ValidationError list \<times> DataSet" where
  "validateDuplicateIDs data =
     (let s = enter data;
          (s, clientIDs) = forEach (clients (st_data s)) duplicate_client (s, Map.empty);
          (s, workerIDs) = forEach (workers (st_data s)) duplicate_worker (s, Map.empty);
          (s, taskIDs) = forEach (tasks (st_data s)) duplicate_task (s, Map.empty)
      in leave s)"

subsection \<open>3. Malformed lists\<close>

definition malformed_slot_finding :: "Worker \<Rightarrow> int \<Rightarrow> ValidationError" where
  "malformed_slot_finding w slot =
     \<lparr>id' = ''malformed-slots-'' @ WorkerID w,
      type' = error,
      message = ''Invalid AvailableSlot value: '' @ string_of_int slot
          @ ''. Must be positive numbers.'',
      field = Some ''AvailableSlots'',
      entityType = worker_entity,
      entityId = WorkerID w,
      severity = medium\<rparr>"

definition malformed_slot :: "Worker \<Rightarrow> int \<Rightarrow> nat \<Rightarrow> rstate \<Rightarrow> rstate" where
  "malformed_slot w slot k s =
     (if isNaN slot \<or> slot < 1 then
        push (malformed_slot_finding w slot) s
      else s)"

definition validateMalformedLists :: "DataSet \<Rightarrow> ValidationError list \<times> DataSet" where
  "validateMalformedLists data =
     (let s = enter data;
          s = forEach (workers (st_data s))
                (\<lambda>w index. forEach (AvailableSlots w) (malformed_slot w)) s
      in leave s)"

subsection \<open>4. Out-of-range values\<close>

definition priority_range_finding :: "Client \<Rightarrow> ValidationError" where
  "priority_range_finding c =
     \<lparr>id' = ''priority-range-'' @ ClientID c,
      type' = error,
      message = ''PriorityLevel must be between 1-5, got: ''
          @ string_of_int (PriorityLevel c),
      field = Some ''PriorityLevel'',
      entityType = client_entity,
      entityId = ClientID c,
      severity = medium\<rparr>"

definition priority_range :: "Client \<Rightarrow> nat \<Rightarrow> rstate \<Rightarrow> rstate" where
  "priority_range c index s =
     (if PriorityLevel c < 1 \<or> PriorityLevel c > 5 then
        push (priority_range_finding c) s
      else s)"

definition duration_range_finding :: "Task \<Rightarrow> ValidationError" where
  "duration_range_finding t =
     \<lparr>id' = ''duration-range-'' @ TaskID t,
      type' = error,
      message = ''Duration must be at least 1, got: '' @ string_of_int (Duration t),
      field = Some ''Duration'',
      entityType = task_entity,
      entityId = TaskID t,
      severity = medium\<rparr>"

definition duration_range :: "Task \<Rightarrow> nat \<Rightarrow> rstate \<Rightarrow> rstate" where
  "duration_range t index s =
     (if Duration t < 1 then
        push (duration_range_finding t) s
      else s)"

definition validateOutOfRangeValues :: "DataSet \<Rightarrow> ValidationError list \<times> DataSet" where
  "validateOutOfRangeValues data =
     (let s = enter data;
          s = forEach (clients (st_data s)) priority_range s;
          s = forEach (tasks (st_data s)) duration_range s
      in leave s)"

subsection \<open>5. Broken JSON\<close>

text \<open>
  The body of the \<open>try\<close> block either completes (\<open>Inr\<close>) or throws (\<open>Inl\<close>). It only
  evaluates \<open>typeof\<close> and a comparison with \<open>null\<close>, and both branches of its \<open>if\<close>
  are empty; the \<open>catch\<close> block is what would push the finding.
\<close>

datatype thrown = Thrown

definition broken_json_try :: "Client \<Rightarrow> thrown + unit" where
  "broken_json_try c =
     (if typeof (AttributesJSON c) = ''object'' \<and> AttributesJSON c \<noteq> JNull then Inr ()
      else Inr ())"

definition broken_json_finding :: "Client \<Rightarrow> ValidationError" where
  "broken_json_finding c =
     \<lparr>id' = ''broken-json-'' @ ClientID c,
      type' = error,
      message = ''Invalid JSON in AttributesJSON'',
      field = Some ''AttributesJSON'',
      entityType = client_entity,
      entityId = ClientID c,
      severity = low\<rparr>"

definition broken_json :: "Client \<Rightarrow> nat \<Rightarrow> rstate \<Rightarrow> rstate" where
  "broken_json c index s =
     (case broken_json_try c of
        Inr u \<Rightarrow> s
      | Inl err \<Rightarrow>
          push (broken_json_finding c) s)"

definition validateBrokenJSON :: "DataSet \<Rightarrow> ValidationError list \<times> DataSet" where
  "validateBrokenJSON data =
     (let s = enter data;
          s = forEach (clients (st_data s)) broken_json s
      in leave s)"

subsection \<open>6. Unknown references\<close>

definition unknown_reference_finding :: "Client \<Rightarrow> string \<Rightarrow> ValidationError" where
  "unknown_reference_finding c taskID =
     \<lparr>id' = ''unknown-task-'' @ ClientID c @ ''-'' @ taskID,
      type' = error,
      message = ''Client references unknown TaskID: '' @ taskID,
      field = Some ''RequestedTaskIDs'',
      entityType = client_entity,
      entityId = ClientID c,
      severity = high\<rparr>"

definition unknown_reference :: "string set \<Rightarrow> Client \<Rightarrow> string \<Rightarrow> nat \<Rightarrow> rstate \<Rightarrow> rstate" where
  "unknown_reference taskIDs c taskID k s =
     (if taskID \<notin> taskIDs then
        push (unknown_reference_finding c taskID) s
      else s)"

definition validateUnknownReferences :: "DataSet \<Rightarrow> ValidationError list \<times> DataSet" where
  "validateUnknownReferences data =
     (let s = enter data;
          taskIDs = set (map TaskID (tasks (st_data s)));
          s = forEach (clients (st_data s))
                (\<lambda>c index. forEach (RequestedTaskIDs c) (unknown_reference taskIDs c)) s
      in leave s)"

subsection \<open>9. Overloaded workers\<close>

definition overloaded_worker_finding :: "Worker \<Rightarrow> ValidationError" where
  "overloaded_worker_finding w =
     \<lparr>id' = ''overloaded-worker-'' @ WorkerID w,
      type' = warning,
      message = ''Worker has '' @ string_of_nat (length (AvailableSlots w))
          @ '' available slots but MaxLoadPerPhase is ''
          @ string_of_int (MaxLoadPerPhase w),
      field = Some ''MaxLoadPerPhase'',
      entityType = worker_entity,
      entityId = WorkerID w,
      severity = medium\<rparr>"

definition overloaded_worker :: "Worker \<Rightarrow> nat \<Rightarrow> rstate \<Rightarrow> rstate" where
  "overloaded_worker w index s =
     (if int (length (AvailableSlots w)) < MaxLoadPerPhase w then
        push (overloaded_worker_finding w) s
      else s)"

definition validateOverloadedWorkers :: "DataSet \<Rightarrow> ValidationError list \<times> DataSet" where
  "validateOverloadedWorkers data =
     (let s = enter data;
          s = forEach (workers (st_data s)) overloaded_worker s
      in leave s)"


subsection \<open>10. Phase-slot saturation\<close>

text \<open>
  A \<open>Map<number, number>\<close> whose entries are visited in insertion order: a list of
  key-value pairs with one entry per key. \<open>set\<close> on a key that is present replaces the
  value where it stands, \<open>set\<close> on a new key appends.
\<close>

definition map_get :: "('k \<times> 'v) list \<Rightarrow> 'k \<Rightarrow> 'v option" where
  "map_get m k = map_of m k"

fun map_set :: "('k \<times> 'v) list \<Rightarrow> 'k \<Rightarrow> 'v \<Rightarrow> ('k \<times> 'v) list" where
  "map_set [] k v = [(k, v)]"
| "map_set ((k', v') # m) k v = (if k' = k then (k, v) # m else (k', v') # map_set m k v)"

definition add_demand :: "Task \<Rightarrow> int \<Rightarrow> nat \<Rightarrow> rstate \<times> (int \<times> int) list \<Rightarrow> rstate \<times> (int \<times> int) list" where
  "add_demand t phase k = (\<lambda>(s, phaseDemand).
     let currentDemand = or_zero (map_get phaseDemand phase)
     in (s, map_set phaseDemand phase (currentDemand + Duration t)))"

definition add_supply :: "Worker \<Rightarrow> int \<Rightarrow> nat \<Rightarrow> rstate \<times> (int \<times> int) list \<Rightarrow> rstate \<times> (int \<times> int) list" where
  "add_supply w phase k = (\<lambda>(s, phaseSupply).
     let currentSupply = or_zero (map_get phaseSupply phase)
     in (s, map_set phaseSupply phase (currentSupply + MaxLoadPerPhase w)))"

definition saturation_finding :: "int \<Rightarrow> int \<Rightarrow> int \<Rightarrow> ValidationError" where
  "saturation_finding phase demand supply =
     \<lparr>id' = ''phase-saturation-'' @ string_of_int phase,
      type' = warning,
      message = ''Phase '' @ string_of_int phase @ '' is oversaturated: demand ''
          @ string_of_int demand @ '' > supply '' @ string_of_int supply,
      field = None,
      entityType = task_entity,
      entityId = ''Phase '' @ string_of_int phase,
      severity = high\<rparr>"

definition saturation :: "(int \<times> int) list \<Rightarrow> int \<times> int \<Rightarrow> nat \<Rightarrow> rstate \<Rightarrow> rstate" where
  "saturation phaseSupply = (\<lambda>(phase, demand) k s.
     let supply = or_zero (map_get phaseSupply phase)
     in if demand > supply then
          push (saturation_finding phase demand supply) s
        else s)"

definition validatePhaseSlotSaturation :: "DataSet \<Rightarrow> ValidationError list \<times> DataSet" where
  "validatePhaseSlotSaturation data =
     (let s = enter data;
          (s, phaseDemand) = forEach (tasks (st_data s))
                (\<lambda>t index. forEach (PreferredPhases t) (add_demand t)) (s, []);
          (s, phaseSupply) = forEach (workers (st_data s))
                (\<lambda>w index. forEach (AvailableSlots w) (add_supply w)) (s, []);
          s = forEach phaseDemand (saturation phaseSupply) s
      in leave s)"

subsection \<open>11. Skill-coverage matrix\<close>

definition add_skill :: "string \<Rightarrow> nat \<Rightarrow> rstate \<times> string set \<Rightarrow> rstate \<times> string set" where
  "add_skill skill k = (\<lambda>(s, availableSkills). (s, insert skill availableSkills))"

definition missing_skill_finding :: "Task \<Rightarrow> string \<Rightarrow> ValidationError" where
  "missing_skill_finding t skill =
     \<lparr>id' = ''missing-skill-'' @ TaskID t @ ''-'' @ skill,
      type' = error,
      message = ''No worker has required skill: '' @ skill,
      field = Some ''RequiredSkills'',
      entityType = task_entity,
      entityId = TaskID t,
      severity = high\<rparr>"

definition missing_skill :: "string set \<Rightarrow> Task \<Rightarrow> string \<Rightarrow> nat \<Rightarrow> rstate \<Rightarrow> rstate" where
  "missing_skill availableSkills t skill k s =
     (if skill \<notin> availableSkills then
        push (missing_skill_finding t skill) s
      else s)"

definition validateSkillCoverageMatrix :: "DataSet \<Rightarrow> ValidationError list \<times> DataSet" where
  "validateSkillCoverageMatrix data =
     (let s = enter data;
          (s, availableSkills) = forEach (workers (st_data s))
                (\<lambda>w index. forEach (Skills w) add_skill) (s, {});
          s = forEach (tasks (st_data s))
                (\<lambda>t index. forEach (RequiredSkills t) (missing_skill availableSkills t)) s
      in leave s)"

subsection \<open>12. Max-concurrency feasibility\<close>

text \<open>The workers kept by \<open>data.workers.filter(...)\<close>; the callback reads \<open>data.workers\<close>
  from the dataset as it is when the task is visited.\<close>

definition qualifiedWorkers :: "DataSet \<Rightarrow> Task \<Rightarrow> Worker list" where
  "qualifiedWorkers data t =
     filter (\<lambda>w. list_all (\<lambda>skill. List.member (Skills w) skill) (RequiredSkills t))
       (workers data)"

definition concurrency_finding :: "Task \<Rightarrow> Worker list \<Rightarrow> ValidationError" where
  "concurrency_finding t qualified =
     \<lparr>id' = ''concurrency-infeasible-'' @ TaskID t,
      type' = warning,
      message = ''MaxConcurrent ('' @ string_of_int (MaxConcurrent t)
          @ '') exceeds qualified workers (''
          @ string_of_nat (length qualified) @ '')'',
      field = Some ''MaxConcurrent'',
      entityType = task_entity,
      entityId = TaskID t,
      severity = medium\<rparr>"

definition concurrency_infeasible :: "Task \<Rightarrow> nat \<Rightarrow> rstate \<Rightarrow> rstate" where
  "concurrency_infeasible t index s =
     (let qualified = qualifiedWorkers (st_data s) t
      in if MaxConcurrent t > int (length qualified) then
           push (concurrency_finding t qualified) s
         else s)"

definition validateMaxConcurrencyFeasibility :: "DataSet \<Rightarrow> ValidationError list \<times> DataSet" where
  "validateMaxConcurrencyFeasibility data =
     (let s = enter data;
          s = forEach (tasks (st_data s)) concurrency_infeasible s
      in leave s)"

subsection \<open>validateDataSet\<close>

text \<open>
  The ten rules run in the source's order on the one dataset object; each call appends
  its array to \<open>errors\<close>, which is then split by \<open>type\<close>. The second component is the
  dataset as the call leaves it.
\<close>

definition validateDataSet :: "DataSet \<Rightarrow> ValidationResult \<times> DataSet" where
  "validateDataSet data =
     (let errs = [];
          (r, data) = validateMissingRequiredColumns data; errs = errs @ r;
          (r, data) = validateDuplicateIDs data; errs = errs @ r;
          (r, data) = validateMalformedLists data; errs = errs @ r;
          (r, data) = validateOutOfRangeValues data; errs = errs @ r;
          (r, data) = validateBrokenJSON data; errs = errs @ r;
          (r, data) = validateUnknownReferences data; errs = errs @ r;
          (r, data) = validateOverloadedWorkers data; errs = errs @ r;
          (r, data) = validatePhaseSlotSaturation data; errs = errs @ r;
          (r, data) = validateSkillCoverageMatrix data; errs = errs @ r;
          (r, data) = validateMaxConcurrencyFeasibility data; errs = errs @ r;
          actualErrors = filter (\<lambda>e. type' e = error) errs;
          warningsOnly = filter (\<lambda>e. type' e = warning) errs
      in (\<lparr>isValid = (length actualErrors = 0),
           errors = actualErrors,
           warnings = warningsOnly\<rparr>, data))"

section \<open>Derived notions and example datasets\<close>

subsection \<open>All findings\<close>

text \<open>Everything the ten rules return, in the order in which \<open>validateDataSet\<close> runs them.\<close>

definition findings :: "DataSet \<Rightarrow> ValidationError list" where
  "findings d =
     fst (validateMissingRequiredColumns d) @ fst (validateDuplicateIDs d)
     @ fst (validateMalformedLists d) @ fst (validateOutOfRangeValues d)
     @ fst (validateBrokenJSON d) @ fst (validateUnknownReferences d)
     @ fst (validateOverloadedWorkers d) @ fst (validatePhaseSlotSaturation d)
     @ fst (validateSkillCoverageMatrix d) @ fst (validateMaxConcurrencyFeasibility d)"

subsection \<open>Duplicate IDs\<close>

text \<open>The shape the three duplicate-ID callbacks share: \<open>key\<close> reads the ID and \<open>mk\<close>
  builds the finding.\<close>

definition seen_step :: "('a \<Rightarrow> string) \<Rightarrow> ('a \<Rightarrow> ValidationError) \<Rightarrow> 'a \<Rightarrow> nat
    \<Rightarrow> rstate \<times> (string \<rightharpoonup> nat) \<Rightarrow> rstate \<times> (string \<rightharpoonup> nat)" where
  "seen_step key mk x index = (\<lambda>(s, ids).
     if key x \<noteq> [] then
       (if ids (key x) \<noteq> None then (push (mk x) s, ids) else (s, ids(key x \<mapsto> index)))
     else (s, ids))"

text \<open>What a pass with \<open>seen_step\<close> reports, given the IDs already in the Map.\<close>

primrec repeats :: "('a \<Rightarrow> string) \<Rightarrow> string set \<Rightarrow> 'a list \<Rightarrow> 'a list" where
  "repeats key seen [] = []"
| "repeats key seen (x # xs) =
     (if key x \<noteq> [] then
        (if key x \<in> seen then x # repeats key seen xs else repeats key (insert (key x) seen) xs)
      else repeats key seen xs)"

text \<open>
  The positions that hold a second or later occurrence of an ID: the value stands at an
  earlier position too. \<open>later_occurrences\<close> leaves the empty ID out,
  \<open>claimed_later_occurrences\<close> counts every repeated value.
\<close>

definition later_occurrences :: "string list \<Rightarrow> nat list" where
  "later_occurrences ids =
     filter (\<lambda>i. ids ! i \<noteq> [] \<and> ids ! i \<in> set (take i ids)) [0..<length ids]"

definition claimed_later_occurrences :: "string list \<Rightarrow> nat list" where
  "claimed_later_occurrences ids = filter (\<lambda>i. ids ! i \<in> set (take i ids)) [0..<length ids]"

subsection \<open>Demand and supply per phase\<close>









subsection \<open>Example datasets\<close>

text \<open>A client whose \<open>AttributesJSON\<close> is a string, which is what \<open>JSON.parse\<close> returns
  for a quoted cell; the rest of the record is in order.\<close>

definition malformed_attributes_client :: Client where
  "malformed_attributes_client =
     \<lparr>ClientID = ''C1'', ClientName = ''Acme'', PriorityLevel = 3, RequestedTaskIDs = [],
      GroupTag = ''g'', AttributesJSON = JString ''{not json''\<rparr>"

definition malformed_attributes_data :: DataSet where
  "malformed_attributes_data =
     \<lparr>clients = [malformed_attributes_client], workers = [], tasks = []\<rparr>"

text \<open>One worker with a single slot and a load of 2: a warning and no error.\<close>

definition warned_worker :: Worker where
  "warned_worker =
     \<lparr>WorkerID = ''W1'', WorkerName = ''Ann'', Skills = [''weld''], AvailableSlots = [1],
      MaxLoadPerPhase = 2, WorkerGroup = ''g'', QualificationLevel = ''senior''\<rparr>"

definition warned_data :: DataSet where
  "warned_data = \<lparr>clients = [], workers = [warned_worker], tasks = []\<rparr>"




text \<open>Two clients that both carry the ID C1, and two clients without an ID.\<close>

definition c1_client :: Client where
  "c1_client =
     \<lparr>ClientID = ''C1'', ClientName = ''Acme'', PriorityLevel = 3, RequestedTaskIDs = [],
      GroupTag = ''g'', AttributesJSON = JObject []\<rparr>"

definition twin_clients_data :: DataSet where
  "twin_clients_data = \<lparr>clients = [c1_client, c1_client], workers = [], tasks = []\<rparr>"

definition unnamed_client :: Client where
  "unnamed_client =
     \<lparr>ClientID = [], ClientName = ''Acme'', PriorityLevel = 3, RequestedTaskIDs = [],
      GroupTag = ''g'', AttributesJSON = JObject []\<rparr>"

definition unnamed_clients_data :: DataSet where
  "unnamed_clients_data = \<lparr>clients = [unnamed_client, unnamed_client], workers = [], tasks = []\<rparr>"

text \<open>Two tasks of duration 5 that prefer phase 2, against one worker available in
  phase 2 with a load of 6, and the same with a load of 10.\<close>

definition five_task :: "string \<Rightarrow> Task" where
  "five_task name =
     \<lparr>TaskID = name, TaskName = ''job'', Category = ''c'', Duration = 5,
      RequiredSkills = [''weld''], PreferredPhases = [2], MaxConcurrent = 1\<rparr>"






text \<open>A task for three welders at once, with two welders and a painter on the list.\<close>

definition skilled_worker :: "string \<Rightarrow> string list \<Rightarrow> Worker" where
  "skilled_worker name skills =
     \<lparr>WorkerID = name, WorkerName = ''Ann'', Skills = skills, AvailableSlots = [1, 2],
      MaxLoadPerPhase = 1, WorkerGroup = ''g'', QualificationLevel = ''senior''\<rparr>"

definition three_welders_task :: Task where
  "three_welders_task =
     \<lparr>TaskID = ''T1'', TaskName = ''job'', Category = ''c'', Duration = 1,
      RequiredSkills = [''weld''], PreferredPhases = [1], MaxConcurrent = 3\<rparr>"

definition concurrency_data :: DataSet where
  "concurrency_data =
     \<lparr>clients = [],
      workers = [skilled_worker ''W1'' [''weld''], skilled_worker ''W2'' [''paint''],
                 skilled_worker ''W3'' [''weld'', ''paint'']],
      tasks = [three_welders_task]\<rparr>"

text \<open>A client that asks for task T99, without and with a task of that ID.\<close>

definition t99_client :: Client where
  "t99_client =
     \<lparr>ClientID = ''C1'', ClientName = ''Acme'', PriorityLevel = 3, RequestedTaskIDs = [''T99''],
      GroupTag = ''g'', AttributesJSON = JObject []\<rparr>"

definition dangling_data :: DataSet where
  "dangling_data = \<lparr>clients = [t99_client], workers = [], tasks = []\<rparr>"

definition resolved_data :: DataSet where
  "resolved_data = \<lparr>clients = [t99_client], workers = [], tasks = [five_task ''T99'']\<rparr>"

text \<open>Three clients with the ID C1 and a worker with two slots below 1.\<close>

definition bad_slots_worker :: Worker where
  "bad_slots_worker =
     \<lparr>WorkerID = ''W1'', WorkerName = ''Ann'', Skills = [''weld''], AvailableSlots = [0, - 1],
      MaxLoadPerPhase = 1, WorkerGroup = ''g'', QualificationLevel = ''senior''\<rparr>"

definition shared_id_data :: DataSet where
  "shared_id_data =
     \<lparr>clients = [c1_client, c1_client, c1_client], workers = [bad_slots_worker], tasks = []\<rparr>"

section \<open>The dataset is only read\<close>

lemma forEach_from_invariant:
  assumes "\<And>x i s. P s \<Longrightarrow> P (f x i s)" and "P s"
  shows "P (forEach_from n xs f s)"
  using assms(2)
proof (induction xs arbitrary: n s)
  case Nil
  then show ?case by simp
next
  case (Cons x xs)
  from Cons.prems have "P (f x n s)" by (rule assms(1))
  then show ?case by (simp add: Cons.IH)
qed

lemma forEach_keeps_data:
  assumes "\<And>x i s. st_data (f x i s) = st_data s"
  shows "st_data (forEach xs f s) = st_data s"
  unfolding forEach_def
  by (rule forEach_from_invariant [where P = "\<lambda>s'. st_data s' = st_data s"])
     (simp_all add: assms)

lemma forEach_keeps_data_pair:
  assumes "\<And>x i s m. st_data (fst (f x i (s, m))) = st_data s"
  shows "st_data (fst (forEach xs f (s, m))) = st_data s"
  unfolding forEach_def
proof (rule forEach_from_invariant [where P = "\<lambda>p. st_data (fst p) = st_data s"])
  fix x i and p :: "'b rstate_scheme \<times> 'c"
  assume "st_data (fst p) = st_data s"
  then show "st_data (fst (f x i p)) = st_data s"
    using assms [of x i "fst p" "snd p"] by simp
qed simp

lemma push_keeps_data [simp]: "st_data (push e s) = st_data s"
  by (simp add: push_def)

lemma missing_field_keeps_data [simp]:
  "st_data (missing_client_field c index fld k s) = st_data s"
  "st_data (missing_worker_field w index fld k s) = st_data s"
  "st_data (missing_task_field t index fld k s) = st_data s"
  by (simp_all add: missing_client_field_def missing_worker_field_def missing_task_field_def)

lemma validateMissingRequiredColumns_frame: "snd (validateMissingRequiredColumns d) = d"
  by (simp add: validateMissingRequiredColumns_def Let_def leave_def enter_def forEach_keeps_data)

lemma duplicate_keeps_data [simp]:
  "st_data (fst (duplicate_client c index (s, m))) = st_data s"
  "st_data (fst (duplicate_worker w index (s, m))) = st_data s"
  "st_data (fst (duplicate_task t index (s, m))) = st_data s"
  by (simp_all add: duplicate_client_def duplicate_worker_def duplicate_task_def)

lemma validateDuplicateIDs_frame: "snd (validateDuplicateIDs d) = d"
  by (simp add: validateDuplicateIDs_def Let_def leave_def enter_def forEach_keeps_data_pair
      case_prod_beta)

lemma rule_callbacks_keep_data [simp]:
  "st_data (malformed_slot w slot k s) = st_data s"
  "st_data (priority_range c index s) = st_data s"
  "st_data (duration_range t index s) = st_data s"
  "st_data (broken_json c index s) = st_data s"
  "st_data (unknown_reference ids c taskID k s) = st_data s"
  "st_data (overloaded_worker w index s) = st_data s"
  "st_data (missing_skill skills t skill k s) = st_data s"
  "st_data (concurrency_infeasible t index s) = st_data s"
  by (simp_all add: malformed_slot_def priority_range_def duration_range_def broken_json_def
      unknown_reference_def overloaded_worker_def missing_skill_def concurrency_infeasible_def
      Let_def split: sum.split)

lemma saturation_keeps_data [simp]:
  "st_data (saturation supply pd k s) = st_data s"
  by (simp add: saturation_def Let_def case_prod_beta)

lemma pair_callbacks_keep_data [simp]:
  "st_data (fst (add_demand t phase k (s, m))) = st_data s"
  "st_data (fst (add_supply w phase k (s, m))) = st_data s"
  "st_data (fst (add_skill skill k (s, S))) = st_data s"
  by (simp_all add: add_demand_def add_supply_def add_skill_def Let_def)

lemma validateMalformedLists_frame: "snd (validateMalformedLists d) = d"
  by (simp add: validateMalformedLists_def Let_def leave_def enter_def forEach_keeps_data)

lemma validateOutOfRangeValues_frame: "snd (validateOutOfRangeValues d) = d"
  by (simp add: validateOutOfRangeValues_def Let_def leave_def enter_def forEach_keeps_data)

lemma validateBrokenJSON_frame: "snd (validateBrokenJSON d) = d"
  by (simp add: validateBrokenJSON_def Let_def leave_def enter_def forEach_keeps_data)

lemma validateUnknownReferences_frame: "snd (validateUnknownReferences d) = d"
  by (simp add: validateUnknownReferences_def Let_def leave_def enter_def forEach_keeps_data)

lemma validateOverloadedWorkers_frame: "snd (validateOverloadedWorkers d) = d"
  by (simp add: validateOverloadedWorkers_def Let_def leave_def enter_def forEach_keeps_data)

lemma validatePhaseSlotSaturation_frame: "snd (validatePhaseSlotSaturation d) = d"
  by (simp add: validatePhaseSlotSaturation_def Let_def leave_def enter_def forEach_keeps_data
      forEach_keeps_data_pair case_prod_beta)

lemma validateSkillCoverageMatrix_frame: "snd (validateSkillCoverageMatrix d) = d"
  by (simp add: validateSkillCoverageMatrix_def Let_def leave_def enter_def forEach_keeps_data
      forEach_keeps_data_pair case_prod_beta)

lemma validateMaxConcurrencyFeasibility_frame: "snd (validateMaxConcurrencyFeasibility d) = d"
  by (simp add: validateMaxConcurrencyFeasibility_def Let_def leave_def enter_def
      forEach_keeps_data)

lemmas rule_frames =
  validateMissingRequiredColumns_frame validateDuplicateIDs_frame validateMalformedLists_frame
  validateOutOfRangeValues_frame validateBrokenJSON_frame validateUnknownReferences_frame
  validateOverloadedWorkers_frame validatePhaseSlotSaturation_frame
  validateSkillCoverageMatrix_frame validateMaxConcurrencyFeasibility_frame

lemma validateDataSet_eq:
  "validateDataSet d =
     (\<lparr>isValid = (filter (\<lambda>e. type' e = error) (findings d) = []),
       errors = filter (\<lambda>e. type' e = error) (findings d),
       warnings = filter (\<lambda>e. type' e = warning) (findings d)\<rparr>, d)"
  by (simp add: validateDataSet_def Let_def case_prod_beta rule_frames findings_def)

section \<open>Callbacks that only push findings\<close>



lemma forEach_from_pushes:
  assumes "\<And>x i s. f x i s = s\<lparr>st_errors := st_errors s @ g x (st_data s)\<rparr>"
  shows "forEach_from n xs f s =
           s\<lparr>st_errors := st_errors s @ concat (map (\<lambda>x. g x (st_data s)) xs)\<rparr>"
proof (induction xs arbitrary: n s)
  case Nil
  then show ?case by simp
next
  case (Cons x xs)
  have "forEach_from n (x # xs) f s = forEach_from (Suc n) xs f (f x n s)"
    by simp
  also have "\<dots> = (f x n s)\<lparr>st_errors := st_errors (f x n s)
       @ concat (map (\<lambda>y. g y (st_data (f x n s))) xs)\<rparr>"
    by (rule Cons.IH)
  also have "\<dots> = s\<lparr>st_errors := st_errors s @ concat (map (\<lambda>y. g y (st_data s)) (x # xs))\<rparr>"
    by (simp add: assms)
  finally show ?case .
qed

lemma forEach_pushes:
  assumes "\<And>x i s. f x i s = s\<lparr>st_errors := st_errors s @ g x (st_data s)\<rparr>"
  shows "forEach xs f s =
           s\<lparr>st_errors := st_errors s @ concat (map (\<lambda>x. g x (st_data s)) xs)\<rparr>"
  unfolding forEach_def by (rule forEach_from_pushes [OF assms])













section \<open>Unknown references and concurrency\<close>

lemma unknown_reference_pushes:
  "unknown_reference taskIDs c taskID k s = s\<lparr>st_errors := st_errors s @
     (if taskID \<notin> taskIDs then [unknown_reference_finding c taskID] else [])\<rparr>"
  by (simp add: unknown_reference_def push_def)

lemma unknown_references_pushes:
  "forEach (RequestedTaskIDs c) (unknown_reference taskIDs c) s = s\<lparr>st_errors := st_errors s @
     concat (map (\<lambda>taskID. if taskID \<notin> taskIDs then [unknown_reference_finding c taskID] else [])
       (RequestedTaskIDs c))\<rparr>"
  by (simp add: forEach_pushes [of "unknown_reference taskIDs c", OF unknown_reference_pushes])

lemma validateUnknownReferences_eq:
  "fst (validateUnknownReferences d) =
     concat (map (\<lambda>c. concat (map (\<lambda>taskID.
         if taskID \<notin> set (map TaskID (tasks d)) then [unknown_reference_finding c taskID] else [])
       (RequestedTaskIDs c))) (clients d))"
  by (simp add: validateUnknownReferences_def Let_def enter_def leave_def
      forEach_pushes [of "\<lambda>c index. forEach (RequestedTaskIDs c) (unknown_reference (TaskID ` set (tasks d)) c)"
        "\<lambda>c data. concat (map (\<lambda>taskID. if taskID \<notin> TaskID ` set (tasks d)
            then [unknown_reference_finding c taskID] else []) (RequestedTaskIDs c))",
        OF unknown_references_pushes])

lemma qualifiedWorkers_eq:
  "qualifiedWorkers d t = filter (\<lambda>w. set (RequiredSkills t) \<subseteq> set (Skills w)) (workers d)"
  by (auto simp: qualifiedWorkers_def list_all_iff intro!: filter_cong)

lemma concurrency_infeasible_pushes:
  "concurrency_infeasible t index s = s\<lparr>st_errors := st_errors s @
     (if MaxConcurrent t > int (length (qualifiedWorkers (st_data s) t))
      then [concurrency_finding t (qualifiedWorkers (st_data s) t)] else [])\<rparr>"
  by (simp add: concurrency_infeasible_def push_def Let_def)

lemma validateMaxConcurrencyFeasibility_eq:
  "fst (validateMaxConcurrencyFeasibility d) =
     concat (map (\<lambda>t. if MaxConcurrent t > int (length (qualifiedWorkers d t))
                       then [concurrency_finding t (qualifiedWorkers d t)] else []) (tasks d))"
  by (simp add: validateMaxConcurrencyFeasibility_def Let_def enter_def leave_def
      forEach_pushes [of concurrency_infeasible
        "\<lambda>t data. if MaxConcurrent t > int (length (qualifiedWorkers data t))
           then [concurrency_finding t (qualifiedWorkers data t)] else []",
        OF concurrency_infeasible_pushes] cong: if_cong)

section \<open>Duplicate IDs, position by position\<close>

lemma duplicate_steps:
  "duplicate_client = seen_step ClientID duplicate_client_finding"
  "duplicate_worker = seen_step WorkerID duplicate_worker_finding"
  "duplicate_task = seen_step TaskID duplicate_task_finding"
  by (auto simp: fun_eq_iff duplicate_client_def duplicate_worker_def duplicate_task_def
      seen_step_def)

lemma forEach_from_seen_step:
  "fst (forEach_from n xs (seen_step key mk) (s, m)) =
     s\<lparr>st_errors := st_errors s @ map mk (repeats key (dom m) xs)\<rparr>"
proof (induction xs arbitrary: n s m)
  case Nil
  then show ?case by simp
next
  case (Cons x xs)
  show ?case
  proof (cases "key x = []")
    case True
    then have "seen_step key mk x n (s, m) = (s, m)"
      by (simp add: seen_step_def)
    then show ?thesis using True by (simp add: Cons.IH)
  next
    case False
    show ?thesis
    proof (cases "key x \<in> dom m")
      case True
      then have "seen_step key mk x n (s, m) = (push (mk x) s, m)"
        using False by (auto simp: seen_step_def)
      then show ?thesis using True False by (simp add: Cons.IH push_def)
    next
      case notin: False
      then have "seen_step key mk x n (s, m) = (s, m(key x \<mapsto> n))"
        using False by (auto simp: seen_step_def)
      then have "fst (forEach_from n (x # xs) (seen_step key mk) (s, m)) =
          fst (forEach_from (Suc n) xs (seen_step key mk) (s, m(key x \<mapsto> n)))"
        by simp
      also have "\<dots> = s\<lparr>st_errors := st_errors s
          @ map mk (repeats key (dom (m(key x \<mapsto> n))) xs)\<rparr>"
        by (rule Cons.IH)
      also have "\<dots> = s\<lparr>st_errors := st_errors s
          @ map mk (repeats key (dom m) (x # xs))\<rparr>"
        using notin False by simp
      finally show ?thesis .
    qed
  qed
qed

lemma upt_Suc_shift: "[0..<Suc n] = 0 # map Suc [0..<n]"
  by (simp add: upt_conv_Cons map_Suc_upt del: upt_Suc)

lemma repeats_positions:
  "repeats key seen xs =
     map (\<lambda>i. xs ! i)
       (filter (\<lambda>i. key (xs ! i) \<noteq> [] \<and> key (xs ! i) \<in> seen \<union> key ` set (take i xs))
          [0..<length xs])"
proof (induction xs arbitrary: seen)
  case Nil
  then show ?case by simp
next
  case (Cons x xs)
  have shift: "[0..<length (x # xs)] = 0 # map Suc [0..<length xs]"
    using upt_Suc_shift [of "length xs"] by simp
  show ?case
    unfolding shift
    by (auto simp: Cons.IH filter_map comp_def intro!: filter_cong arg_cong [where f = "map _"])
qed

lemma later_occurrences_map:
  "later_occurrences (map key xs) =
     filter (\<lambda>i. key (xs ! i) \<noteq> [] \<and> key (xs ! i) \<in> {} \<union> key ` set (take i xs)) [0..<length xs]"
  unfolding later_occurrences_def
  by (auto simp: take_map intro!: filter_cong)

lemma forEach_seen_step:
  "fst (forEach xs (seen_step key mk) (s, Map.empty)) =
     s\<lparr>st_errors := st_errors s @ map (\<lambda>i. mk (xs ! i)) (later_occurrences (map key xs))\<rparr>"
  unfolding forEach_def forEach_from_seen_step later_occurrences_map
  by (simp add: repeats_positions comp_def)

lemma validateDuplicateIDs_eq:
  "fst (validateDuplicateIDs d) =
     map (\<lambda>i. duplicate_client_finding (clients d ! i)) (later_occurrences (map ClientID (clients d)))
     @ map (\<lambda>i. duplicate_worker_finding (workers d ! i)) (later_occurrences (map WorkerID (workers d)))
     @ map (\<lambda>i. duplicate_task_finding (tasks d ! i)) (later_occurrences (map TaskID (tasks d)))"
  by (simp add: validateDuplicateIDs_def Let_def enter_def leave_def case_prod_beta duplicate_steps
      forEach_seen_step)

section \<open>Decimal rendering is injective\<close>








section \<open>Phase demand and supply\<close>




lemma or_zero_simps [simp]: "or_zero None = 0" "or_zero (Some v) = v"
  by (simp_all add: or_zero_def)




















section \<open>Broken JSON\<close>

text \<open>Whatever the clients hold, the broken-JSON rule returns no finding.\<close>

lemma broken_json_skips: "broken_json c index s = s\<lparr>st_errors := st_errors s @ []\<rparr>"
  by (simp add: broken_json_def broken_json_try_def)

lemma validateBrokenJSON_returns_nothing: "fst (validateBrokenJSON d) = []"
  by (simp add: validateBrokenJSON_def Let_def enter_def leave_def
      forEach_pushes [of broken_json "\<lambda>c data. []", OF broken_json_skips])

text \<open>
  C1, evaluated on a client whose \<open>AttributesJSON\<close> is present and is a string rather
  than a mapping: the report is empty and valid, so the broken-JSON finding the rule's
  \<open>catch\<close> block holds is not produced.
\<close>

theorem malformed_attributes_unreported:
  "typeof (AttributesJSON malformed_attributes_client) = ''string''
   \<and> validateDataSet malformed_attributes_data
       = (\<lparr>isValid = True, errors = [], warnings = []\<rparr>, malformed_attributes_data)"
  by code_simp

section \<open>The report\<close>

text \<open>
  C2. For every dataset, the result of \<open>validateDataSet\<close> has \<open>isValid\<close> true exactly when
  its \<open>errors\<close> sequence is empty; the \<open>warnings\<close> play no part.
\<close>

theorem isValid_iff_no_errors:
  "isValid (fst (validateDataSet d)) = (errors (fst (validateDataSet d)) = [])"
  by (simp add: validateDataSet_def Let_def case_prod_beta)

theorem isValid_iff_no_errors_witness:
  "isValid (fst (validateDataSet warned_data))
   \<and> errors (fst (validateDataSet warned_data)) = []
   \<and> length (warnings (fst (validateDataSet warned_data))) = 1"
proof -
  have e: "errors (fst (validateDataSet warned_data)) = []"
    by code_simp
  have w: "length (warnings (fst (validateDataSet warned_data))) = 1"
    by code_simp
  from isValid_iff_no_errors [of warned_data] e w show ?thesis
    by simp
qed



section \<open>Duplicate IDs\<close>

text \<open>
  C4 as it is written counts every repeated ID value. Two clients whose \<open>ClientID\<close> is
  the empty string repeat a value, the second at position 1, and the rule reports
  nothing.
\<close>

theorem duplicate_empty_ids_counterexample:
  "claimed_later_occurrences (map ClientID (clients unnamed_clients_data)) = [1]
   \<and> fst (validateDuplicateIDs unnamed_clients_data) = []"
  by code_simp

text \<open>
  C4, amended. For every dataset and each of the three collections, the duplicate-ID rule
  returns one error finding of severity high for each second or later occurrence of a
  non-empty ID value, in the order of the rows, and none for a first occurrence or for
  an empty ID; the clients' findings come first, then the workers', then the tasks'.
\<close>

theorem duplicate_ids_reported:
  "fst (validateDuplicateIDs d) =
     map (\<lambda>i. duplicate_client_finding (clients d ! i))
       (later_occurrences (map ClientID (clients d)))
     @ map (\<lambda>i. duplicate_worker_finding (workers d ! i))
       (later_occurrences (map WorkerID (workers d)))
     @ map (\<lambda>i. duplicate_task_finding (tasks d ! i))
       (later_occurrences (map TaskID (tasks d)))
   \<and> type' (duplicate_client_finding c) = error \<and> severity (duplicate_client_finding c) = high
   \<and> type' (duplicate_worker_finding w) = error \<and> severity (duplicate_worker_finding w) = high
   \<and> type' (duplicate_task_finding t) = error \<and> severity (duplicate_task_finding t) = high"
proof (intro conjI)
  show "fst (validateDuplicateIDs d) =
     map (\<lambda>i. duplicate_client_finding (clients d ! i))
       (later_occurrences (map ClientID (clients d)))
     @ map (\<lambda>i. duplicate_worker_finding (workers d ! i))
       (later_occurrences (map WorkerID (workers d)))
     @ map (\<lambda>i. duplicate_task_finding (tasks d ! i))
       (later_occurrences (map TaskID (tasks d)))"
    by (rule validateDuplicateIDs_eq)
qed (simp_all add: duplicate_client_finding_def duplicate_worker_finding_def
      duplicate_task_finding_def)

theorem duplicate_ids_reported_witness:
  "later_occurrences (map ClientID (clients twin_clients_data)) = [1]
   \<and> fst (validateDuplicateIDs twin_clients_data) =
       [\<lparr>id' = ''duplicate-client-C1'', type' = error, message = ''Duplicate ClientID: C1'',
         field = Some ''ClientID'', entityType = client_entity, entityId = ''C1'',
         severity = high\<rparr>]"
proof
  show "later_occurrences (map ClientID (clients twin_clients_data)) = [1]"
    by code_simp
  have "fst (validateDuplicateIDs twin_clients_data) =
     map (\<lambda>i. duplicate_client_finding (clients twin_clients_data ! i))
       (later_occurrences (map ClientID (clients twin_clients_data)))
     @ map (\<lambda>i. duplicate_worker_finding (workers twin_clients_data ! i))
       (later_occurrences (map WorkerID (workers twin_clients_data)))
     @ map (\<lambda>i. duplicate_task_finding (tasks twin_clients_data ! i))
       (later_occurrences (map TaskID (tasks twin_clients_data)))"
    using duplicate_ids_reported [where d = twin_clients_data] by (rule conjunct1)
  also have "\<dots> =
       [\<lparr>id' = ''duplicate-client-C1'', type' = error, message = ''Duplicate ClientID: C1'',
         field = Some ''ClientID'', entityType = client_entity, entityId = ''C1'',
         severity = high\<rparr>]"
    by code_simp
  finally show "fst (validateDuplicateIDs twin_clients_data) =
       [\<lparr>id' = ''duplicate-client-C1'', type' = error, message = ''Duplicate ClientID: C1'',
         field = Some ''ClientID'', entityType = client_entity, entityId = ''C1'',
         severity = high\<rparr>]" .
qed

section \<open>Phase saturation\<close>




section \<open>Concurrency feasibility\<close>

text \<open>
  C6. For every dataset, the concurrency rule goes through the tasks in order and for
  every task returns exactly one warning when the task's \<open>MaxConcurrent\<close> is greater than
  the number of workers whose \<open>Skills\<close> hold every one of the task's \<open>RequiredSkills\<close>,
  and nothing otherwise; the message of the warning cites \<open>MaxConcurrent\<close> and that
  number of workers.
\<close>

theorem concurrency_infeasibility_reported:
  "fst (validateMaxConcurrencyFeasibility d) =
     concat (map (\<lambda>t.
       let qualified = filter (\<lambda>w. set (RequiredSkills t) \<subseteq> set (Skills w)) (workers d)
       in if MaxConcurrent t > int (length qualified) then
            [\<lparr>id' = ''concurrency-infeasible-'' @ TaskID t,
              type' = warning,
              message = ''MaxConcurrent ('' @ string_of_int (MaxConcurrent t)
                @ '') exceeds qualified workers ('' @ string_of_nat (length qualified) @ '')'',
              field = Some ''MaxConcurrent'',
              entityType = task_entity,
              entityId = TaskID t,
              severity = medium\<rparr>]
          else []) (tasks d))"
  unfolding validateMaxConcurrencyFeasibility_eq concurrency_finding_def qualifiedWorkers_eq
  by (simp add: Let_def)

theorem concurrency_infeasibility_reported_witness:
  "fst (validateMaxConcurrencyFeasibility concurrency_data) =
     [\<lparr>id' = ''concurrency-infeasible-T1'', type' = warning,
       message = ''MaxConcurrent (3) exceeds qualified workers (2)'',
       field = Some ''MaxConcurrent'', entityType = task_entity, entityId = ''T1'',
       severity = medium\<rparr>]"
  by (subst concurrency_infeasibility_reported) code_simp

section \<open>Unknown references\<close>

text \<open>
  C7. For every dataset, the unknown-reference rule goes through the clients in order and
  through each client's \<open>RequestedTaskIDs\<close> in order, and for every entry returns
  exactly one error finding of severity high, naming the client and the entry, when no
  task has that \<open>TaskID\<close>, and nothing when some task has it.
\<close>

theorem unknown_references_reported:
  "fst (validateUnknownReferences d) =
     concat (map (\<lambda>c. concat (map (\<lambda>taskID.
         if taskID \<notin> set (map TaskID (tasks d)) then
           [\<lparr>id' = ''unknown-task-'' @ ClientID c @ ''-'' @ taskID,
             type' = error,
             message = ''Client references unknown TaskID: '' @ taskID,
             field = Some ''RequestedTaskIDs'',
             entityType = client_entity,
             entityId = ClientID c,
             severity = high\<rparr>]
         else [])
       (RequestedTaskIDs c))) (clients d))"
  unfolding validateUnknownReferences_eq unknown_reference_finding_def
  by simp

theorem unknown_references_reported_witness:
  "fst (validateUnknownReferences dangling_data) =
     [\<lparr>id' = ''unknown-task-C1-T99'', type' = error,
       message = ''Client references unknown TaskID: T99'',
       field = Some ''RequestedTaskIDs'', entityType = client_entity, entityId = ''C1'',
       severity = high\<rparr>]
   \<and> fst (validateUnknownReferences resolved_data) = []"
proof
  show "fst (validateUnknownReferences dangling_data) =
     [\<lparr>id' = ''unknown-task-C1-T99'', type' = error,
       message = ''Client references unknown TaskID: T99'',
       field = Some ''RequestedTaskIDs'', entityType = client_entity, entityId = ''C1'',
       severity = high\<rparr>]"
    by (subst unknown_references_reported) code_simp
  show "fst (validateUnknownReferences resolved_data) = []"
    by (subst unknown_references_reported) code_simp
qed

section \<open>Identifiers within one report\<close>

text \<open>
  C8, evaluated on three clients with the ID C1 and one worker with two slots below 1:
  the report holds four errors, and the two duplicate-ID findings share one identifier,
  as do the two malformed-slot findings.
\<close>

theorem identifiers_shared_within_report:
  "map id' (errors (fst (validateDataSet shared_id_data))) =
     [''duplicate-client-C1'', ''duplicate-client-C1'',
      ''malformed-slots-W1'', ''malformed-slots-W1'']
   \<and> warnings (fst (validateDataSet shared_id_data)) = []
   \<and> \<not> distinct (map id' (errors (fst (validateDataSet shared_id_data))))"
  by code_simp

section \<open>The dataset after the call\<close>

text \<open>
  C9. For every dataset, \<open>validateDataSet\<close> leaves the dataset as it found it: the clients,
  workers and tasks after the call are those before the call.
\<close>

theorem validateDataSet_leaves_dataset:
  "snd (validateDataSet d) = d"
  by (simp add: validateDataSet_eq)

theorem validateDataSet_leaves_dataset_witness:
  "snd (validateDataSet warned_data) = \<lparr>clients = [], workers = [warned_worker], tasks = []\<rparr>"
  using validateDataSet_leaves_dataset [of warned_data] by (simp add: warned_data_def)

section \<open>Zero is both missing and out of range\<close>



end
